theory Spec2Isabelle
  imports Main
begin

text \<open>
  A model of \<open>football_sync.py\<close>: the class \<open>FootballDataPipeline\<close>, which fetches
  the Premier League standings and the recent matches from an HTTP API, maps the JSON
  documents to flat rows and writes the rows to two database tables.

  The program is embedded as functions on an explicit state. What the outside world
  answers (the clock, the HTTP responses, the failures of database calls) is an
  environment that the functions read; what the program does to the outside world (the
  two tables, the lines it prints, the calls it makes) is the state. A Python exception
  is the left summand of the result, and the state at the moment of the \<open>raise\<close> is
  returned with it.
\<close>

section \<open>Values: JSON documents, timestamps, exceptions\<close>

text \<open>
  \<open>response.json()\<close> yields an arbitrary JSON document. An object is kept as the list
  of its items (key, value), whose keys are distinct; a key is looked up with
  \<open>map_of\<close>. A number with a fraction or an exponent is kept as its mantissa and
  exponent: the program only copies it.
\<close>

datatype json =
    JNull
  | JBool bool
  | JInt int
  | JFloat int int
  | JStr string
  | JArr "json list"
  | JObj "(string \<times> json) list"

text \<open>
  \<open>datetime.now()\<close> is a naive local timestamp; it is kept as the number of
  microseconds on that clock. A calendar date is the day number.
\<close>

type_synonym datetime = int
type_synonym date = int

definition usec_per_day :: int where
  "usec_per_day = 86400000000"

definition date_of :: "datetime \<Rightarrow> date" where
  "date_of t = t div usec_per_day"

definition midnight :: "date \<Rightarrow> datetime" where
  "midnight d = d * usec_per_day"

definition timedelta_days :: "int \<Rightarrow> int" where
  "timedelta_days n = n * usec_per_day"

text \<open>
  The exceptions that the program can meet. \<open>RequestException\<close> stands for
  \<open>requests.exceptions.RequestException\<close> and carries the subclass that was raised.
\<close>

datatype request_error = ConnectionError | Timeout | HTTPError int | JSONDecodeError

datatype exn =
    RequestException request_error
  | KeyError string
  | IndexError
  | TypeError
  | AttributeError
  | APIError string

fun is_RequestException :: "exn \<Rightarrow> bool" where
  "is_RequestException (RequestException _) = True"
| "is_RequestException _ = False"

definition sbind :: "exn + 'a \<Rightarrow> ('a \<Rightarrow> exn + 'b) \<Rightarrow> exn + 'b" where
  "sbind m f = (case m of Inl e \<Rightarrow> Inl e | Inr x \<Rightarrow> f x)"

subsection \<open>Python operations on a decoded document\<close>

text \<open>\<open>x[k]\<close> with a string key.\<close>

fun subscript :: "json \<Rightarrow> string \<Rightarrow> exn + json" where
  "subscript (JObj kvs) k = (case map_of kvs k of None \<Rightarrow> Inl (KeyError k) | Some v \<Rightarrow> Inr v)"
| "subscript _ k = Inl TypeError"

text \<open>\<open>x[0]\<close>. The keys of a decoded object are strings, so \<open>0\<close> is never one of them.\<close>

fun index0 :: "json \<Rightarrow> exn + json" where
  "index0 (JArr []) = Inl IndexError"
| "index0 (JArr (v # _)) = Inr v"
| "index0 (JStr []) = Inl IndexError"
| "index0 (JStr (c # _)) = Inr (JStr [c])"
| "index0 (JObj _) = Inl (KeyError ''0'')"
| "index0 _ = Inl TypeError"

fun is_infix :: "string \<Rightarrow> string \<Rightarrow> bool" where
  "is_infix k [] = (k = [])"
| "is_infix k (c # cs) = (take (length k) (c # cs) = k \<or> is_infix k cs)"

text \<open>\<open>k in x\<close> with a string \<open>k\<close>.\<close>

fun contains :: "string \<Rightarrow> json \<Rightarrow> exn + bool" where
  "contains k (JObj kvs) = Inr (map_of kvs k \<noteq> None)"
| "contains k (JArr xs) = Inr (List.member xs (JStr k))"
| "contains k (JStr s) = Inr (is_infix k s)"
| "contains k _ = Inl TypeError"

text \<open>\<open>len(x)\<close>.\<close>

fun py_len :: "json \<Rightarrow> exn + nat" where
  "py_len (JArr xs) = Inr (length xs)"
| "py_len (JObj kvs) = Inr (length kvs)"
| "py_len (JStr s) = Inr (length s)"
| "py_len _ = Inl TypeError"

text \<open>The elements that \<open>for v in x\<close> visits.\<close>

fun iterate :: "json \<Rightarrow> exn + json list" where
  "iterate (JArr xs) = Inr xs"
| "iterate (JObj kvs) = Inr (map (\<lambda>kv. JStr (fst kv)) kvs)"
| "iterate (JStr s) = Inr (map (\<lambda>c. JStr [c]) s)"
| "iterate _ = Inl TypeError"

text \<open>\<open>x.get(k, d)\<close>.\<close>

fun get_default :: "json \<Rightarrow> string \<Rightarrow> json \<Rightarrow> exn + json" where
  "get_default (JObj kvs) k d = (case map_of kvs k of None \<Rightarrow> Inr d | Some v \<Rightarrow> Inr v)"
| "get_default _ k d = Inl AttributeError"

section \<open>Rows, requests and the world outside the process\<close>

text \<open>
  A row is the dictionary that a mapper builds: the values are copied from the
  document as they are; \<open>updated_at\<close> (the fields \<open>s_updated_at\<close> and
  \<open>m_updated_at\<close>) is the reading of the clock, kept as the timestamp that its ISO
  string denotes. The dates of the query parameters are kept as dates.
\<close>

record standing_row =
  position :: json
  team_name :: json
  team_id :: json
  played_games :: json
  won :: json
  draw :: json
  lost :: json
  points :: json
  goals_for :: json
  goals_against :: json
  goal_difference :: json
  s_updated_at :: datetime

record match_row =
  match_id :: json
  match_date :: json
  status :: json
  matchday :: json
  home_team :: json
  home_team_id :: json
  away_team :: json
  away_team_id :: json
  home_score :: json
  away_score :: json
  m_updated_at :: datetime

record request =
  url :: string
  headers :: "(string \<times> string) list"
  params :: "(string \<times> date) list"

record response =
  status_code :: int
  body :: "json option"

text \<open>What the process prints, and the calls it makes to the API and to the database.\<close>

datatype event =
    HttpGet request
  | DbDeleteStandingsGte datetime
  | DbInsertStandings "standing_row list"
  | DbUpsertMatch match_row
  | ErrorFetchingStandings exn
  | ErrorFetchingMatches exn
  | NoStandingsData
  | NoMatchData
  | SyncedStandings nat
  | SyncedMatches nat
  | ErrorSyncingStandings exn
  | ErrorSyncingMatches exn
  | Banner
  | StartingDailySync datetime
  | SyncCompleted datetime

text \<open>
  The environment fixes what the outside world answers: the value of
  \<open>FOOTBALL_API_KEY\<close>, the reading of the clock at the k-th call of
  \<open>datetime.now()\<close>, the outcome of the k-th HTTP GET, and whether the k-th database
  call fails (with which message).
\<close>

record env =
  api_key :: "string option"
  clock_at :: "nat \<Rightarrow> datetime"
  http_at :: "nat \<Rightarrow> request \<Rightarrow> request_error + response"
  db_at :: "nat \<Rightarrow> string option"

text \<open>
  The state: the two tables (the rows as the program writes them; the generated
  \<open>id\<close> column is never read or written by the program), the trace of events, and
  the number of clock readings, HTTP calls and database calls made so far.
\<close>

record world =
  standings_tbl :: "standing_row list"
  matches_tbl :: "match_row list"
  trace :: "event list"
  n_now :: nat
  n_http :: nat
  n_db :: nat

type_synonym 'a prog = "world \<Rightarrow> (exn + 'a) \<times> world"

definition bind :: "'a prog \<Rightarrow> ('a \<Rightarrow> 'b prog) \<Rightarrow> 'b prog" where
  "bind m f w = (case m w of (Inl e, w') \<Rightarrow> (Inl e, w') | (Inr x, w') \<Rightarrow> f x w')"

definition lift :: "exn + 'a \<Rightarrow> 'a prog" where
  "lift r w = (r, w)"

definition now :: "env \<Rightarrow> world \<Rightarrow> datetime \<times> world" where
  "now env w = (clock_at env (n_now w), w\<lparr>n_now := Suc (n_now w)\<rparr>)"

definition print :: "event \<Rightarrow> world \<Rightarrow> world" where
  "print ev w = w\<lparr>trace := trace w @ [ev]\<rparr>"

subsection \<open>The requests library\<close>

text \<open>
  \<open>requests.get\<close> either raises a \<open>RequestException\<close> (transport failure) or returns
  a response. \<open>raise_for_status\<close> raises \<open>HTTPError\<close> when the status is a client or
  server error, \<open>400 <= status_code < 600\<close>, and returns otherwise. \<open>json()\<close> raises
  \<open>requests.exceptions.JSONDecodeError\<close>, which is a \<open>RequestException\<close> (requests
  2.27 and later), when the body is not JSON. The body of a response is kept as the
  document it decodes to, \<open>None\<close> when it does not decode.
\<close>

definition requests_get :: "env \<Rightarrow> request \<Rightarrow> response prog" where
  "requests_get env req w =
     ((case http_at env (n_http w) req of
         Inl e \<Rightarrow> Inl (RequestException e)
       | Inr r \<Rightarrow> Inr r),
      w\<lparr>trace := trace w @ [HttpGet req], n_http := Suc (n_http w)\<rparr>)"

definition raise_for_status :: "response \<Rightarrow> exn + unit" where
  "raise_for_status r =
     (if 400 \<le> status_code r \<and> status_code r < 600
      then Inl (RequestException (HTTPError (status_code r)))
      else Inr ())"

definition response_json :: "response \<Rightarrow> exn + json" where
  "response_json r =
     (case body r of None \<Rightarrow> Inl (RequestException JSONDecodeError) | Some j \<Rightarrow> Inr j)"

section \<open>FootballDataPipeline\<close>

definition base_url :: string where
  "base_url = ''https://api.football-data.org/v4''"

text \<open>\<open>__init__\<close>: the token header is set when the key is a non-empty string.\<close>

definition init_headers :: "env \<Rightarrow> (string \<times> string) list" where
  "init_headers env =
     (case api_key env of
        None \<Rightarrow> []
      | Some k \<Rightarrow> if k = [] then [] else [(''X-Auth-Token'', k)])"

subsection \<open>get_premier_league_standings\<close>

text \<open>
  The dictionary built for one table entry: the lookups in source order; the row still
  waits for its timestamp, which is read only after every lookup succeeded.
\<close>

definition standing_fields :: "json \<Rightarrow> exn + (datetime \<Rightarrow> standing_row)" where
  "standing_fields team =
     sbind (subscript team ''position'') (\<lambda>v_position.
     sbind (sbind (subscript team ''team'') (\<lambda>t. subscript t ''name'')) (\<lambda>v_team_name.
     sbind (sbind (subscript team ''team'') (\<lambda>t. subscript t ''id'')) (\<lambda>v_team_id.
     sbind (subscript team ''playedGames'') (\<lambda>v_played_games.
     sbind (subscript team ''won'') (\<lambda>v_won.
     sbind (subscript team ''draw'') (\<lambda>v_draw.
     sbind (subscript team ''lost'') (\<lambda>v_lost.
     sbind (subscript team ''points'') (\<lambda>v_points.
     sbind (subscript team ''goalsFor'') (\<lambda>v_goals_for.
     sbind (subscript team ''goalsAgainst'') (\<lambda>v_goals_against.
     sbind (subscript team ''goalDifference'') (\<lambda>v_goal_difference.
     Inr (\<lambda>t. \<lparr>position = v_position, team_name = v_team_name, team_id = v_team_id,
               played_games = v_played_games, won = v_won, draw = v_draw, lost = v_lost,
               points = v_points, goals_for = v_goals_for,
               goals_against = v_goals_against, goal_difference = v_goal_difference,
               s_updated_at = t\<rparr>))))))))))))"

text \<open>The loop over the table: \<open>acc\<close> is the list \<open>standings\<close> built so far.\<close>

fun map_teams :: "env \<Rightarrow> json list \<Rightarrow> standing_row list \<Rightarrow> standing_row list prog" where
  "map_teams env [] acc w = (Inr acc, w)"
| "map_teams env (team # rest) acc w =
     (case standing_fields team of
        Inl e \<Rightarrow> (Inl e, w)
      | Inr mk \<Rightarrow> (case now env w of (t, w') \<Rightarrow> map_teams env rest (acc @ [mk t]) w'))"

text \<open>Lines 35 to 53: from the decoded document to the list that is returned.\<close>

definition standings_of :: "env \<Rightarrow> json \<Rightarrow> standing_row list prog" where
  "standings_of env data w =
     (case contains ''standings'' data of
        Inl e \<Rightarrow> (Inl e, w)
      | Inr False \<Rightarrow> (Inr [], w)
      | Inr True \<Rightarrow>
          (case sbind (subscript data ''standings'') py_len of
             Inl e \<Rightarrow> (Inl e, w)
           | Inr n \<Rightarrow>
               if n > 0 then
                 (case sbind (sbind (sbind (subscript data ''standings'') index0)
                               (\<lambda>g. subscript g ''table'')) iterate of
                    Inl e \<Rightarrow> (Inl e, w)
                  | Inr teams \<Rightarrow> map_teams env teams [] w)
               else (Inr [], w)))"

definition standings_request :: "env \<Rightarrow> request" where
  "standings_request env =
     \<lparr>url = base_url @ ''/competitions/PL/standings'', headers = init_headers env,
      params = []\<rparr>"

text \<open>The body of the \<open>try\<close> block.\<close>

definition standings_try :: "env \<Rightarrow> standing_row list prog" where
  "standings_try env =
     bind (requests_get env (standings_request env)) (\<lambda>resp.
     bind (lift (raise_for_status resp)) (\<lambda>_.
     bind (lift (response_json resp)) (\<lambda>data.
     standings_of env data)))"

text \<open>The \<open>except\<close> clause catches \<open>RequestException\<close> and nothing else.\<close>

definition get_premier_league_standings :: "env \<Rightarrow> standing_row list prog" where
  "get_premier_league_standings env w =
     (case standings_try env w of
        (Inr rows, w') \<Rightarrow> (Inr rows, w')
      | (Inl e, w') \<Rightarrow>
          if is_RequestException e
          then (Inr [], print (ErrorFetchingStandings e) w')
          else (Inl e, w'))"

subsection \<open>get_recent_matches\<close>

definition match_fields :: "json \<Rightarrow> exn + (datetime \<Rightarrow> match_row)" where
  "match_fields m =
     sbind (subscript m ''id'') (\<lambda>v_match_id.
     sbind (subscript m ''utcDate'') (\<lambda>v_match_date.
     sbind (subscript m ''status'') (\<lambda>v_status.
     sbind (subscript m ''matchday'') (\<lambda>v_matchday.
     sbind (sbind (subscript m ''homeTeam'') (\<lambda>t. subscript t ''name'')) (\<lambda>v_home_team.
     sbind (sbind (subscript m ''homeTeam'') (\<lambda>t. subscript t ''id'')) (\<lambda>v_home_team_id.
     sbind (sbind (subscript m ''awayTeam'') (\<lambda>t. subscript t ''name'')) (\<lambda>v_away_team.
     sbind (sbind (subscript m ''awayTeam'') (\<lambda>t. subscript t ''id'')) (\<lambda>v_away_team_id.
     sbind (sbind (sbind (subscript m ''score'') (\<lambda>s. subscript s ''fullTime''))
              (\<lambda>f. subscript f ''home'')) (\<lambda>v_home_score.
     sbind (sbind (sbind (subscript m ''score'') (\<lambda>s. subscript s ''fullTime''))
              (\<lambda>f. subscript f ''away'')) (\<lambda>v_away_score.
     Inr (\<lambda>t. \<lparr>match_id = v_match_id, match_date = v_match_date, status = v_status,
               matchday = v_matchday, home_team = v_home_team,
               home_team_id = v_home_team_id, away_team = v_away_team,
               away_team_id = v_away_team_id, home_score = v_home_score,
               away_score = v_away_score, m_updated_at = t\<rparr>)))))))))))"

fun map_matches :: "env \<Rightarrow> json list \<Rightarrow> match_row list \<Rightarrow> match_row list prog" where
  "map_matches env [] acc w = (Inr acc, w)"
| "map_matches env (m # rest) acc w =
     (case match_fields m of
        Inl e \<Rightarrow> (Inl e, w)
      | Inr mk \<Rightarrow> (case now env w of (t, w') \<Rightarrow> map_matches env rest (acc @ [mk t]) w'))"

text \<open>Lines 74 to 90.\<close>

definition matches_of :: "env \<Rightarrow> json \<Rightarrow> match_row list prog" where
  "matches_of env data w =
     (case sbind (get_default data ''matches'' (JArr [])) iterate of
        Inl e \<Rightarrow> (Inl e, w)
      | Inr ms \<Rightarrow> map_matches env ms [] w)"

definition matches_request :: "env \<Rightarrow> date \<Rightarrow> date \<Rightarrow> request" where
  "matches_request env date_from date_to =
     \<lparr>url = base_url @ ''/competitions/PL/matches'', headers = init_headers env,
      params = [(''dateFrom'', date_from), (''dateTo'', date_to)]\<rparr>"

definition matches_try :: "env \<Rightarrow> request \<Rightarrow> match_row list prog" where
  "matches_try env req =
     bind (requests_get env req) (\<lambda>resp.
     bind (lift (raise_for_status resp)) (\<lambda>_.
     bind (lift (response_json resp)) (\<lambda>data.
     matches_of env data)))"

definition get_recent_matches :: "env \<Rightarrow> int \<Rightarrow> match_row list prog" where
  "get_recent_matches env days_back w =
     (case now env w of (t1, w1) \<Rightarrow>
     (case now env w1 of (t2, w2) \<Rightarrow>
     (case matches_try env
             (matches_request env (date_of (t1 - timedelta_days days_back)) (date_of t2)) w2 of
        (Inr rows, w') \<Rightarrow> (Inr rows, w')
      | (Inl e, w') \<Rightarrow>
          if is_RequestException e
          then (Inr [], print (ErrorFetchingMatches e) w')
          else (Inl e, w'))))"

subsection \<open>The database calls\<close>

text \<open>
  Every \<open>execute()\<close> is one database call: it is recorded in the trace, it fails when
  the environment says so (leaving the tables as they are), and otherwise has its effect.
  \<open>delete().gte('updated_at', d)\<close> removes the rows whose \<open>updated_at\<close> is not before
  \<open>d\<close>; \<open>insert(rows)\<close> adds the rows.
\<close>

definition db_call :: "env \<Rightarrow> event \<Rightarrow> (world \<Rightarrow> world) \<Rightarrow> unit prog" where
  "db_call env ev effect w =
     (case db_at env (n_db w) of
        Some msg \<Rightarrow> (Inl (APIError msg), w\<lparr>trace := trace w @ [ev], n_db := Suc (n_db w)\<rparr>)
      | None \<Rightarrow> (Inr (), (effect w)\<lparr>trace := trace w @ [ev], n_db := Suc (n_db w)\<rparr>))"

definition delete_standings_gte :: "env \<Rightarrow> datetime \<Rightarrow> unit prog" where
  "delete_standings_gte env d =
     db_call env (DbDeleteStandingsGte d)
       (\<lambda>w. w\<lparr>standings_tbl := filter (\<lambda>r. \<not> d \<le> s_updated_at r) (standings_tbl w)\<rparr>)"

definition insert_standings :: "env \<Rightarrow> standing_row list \<Rightarrow> unit prog" where
  "insert_standings env rows =
     db_call env (DbInsertStandings rows)
       (\<lambda>w. w\<lparr>standings_tbl := standings_tbl w @ rows\<rparr>)"



subsection \<open>sync_standings_to_supabase\<close>

text \<open>The body of the \<open>try\<close> block, lines 104 to 111.\<close>

definition standings_write :: "env \<Rightarrow> standing_row list \<Rightarrow> unit prog" where
  "standings_write env standings w =
     (case now env w of (t, w1) \<Rightarrow>
        bind (delete_standings_gte env (midnight (date_of t))) (\<lambda>_.
        bind (insert_standings env standings) (\<lambda>_ w3.
        (Inr (), print (SyncedStandings (length standings)) w3))) w1)"

text \<open>
  The fetch is called before the \<open>try\<close>, so whatever it raises leaves the function;
  \<open>except Exception\<close> catches everything raised by the write.
\<close>

definition sync_standings_to_supabase :: "env \<Rightarrow> unit prog" where
  "sync_standings_to_supabase env w =
     (case get_premier_league_standings env w of
        (Inl e, w1) \<Rightarrow> (Inl e, w1)
      | (Inr standings, w1) \<Rightarrow>
          if standings = [] then (Inr (), print NoStandingsData w1)
          else
            (case standings_write env standings w1 of
               (Inr u, w2) \<Rightarrow> (Inr (), w2)
             | (Inl e, w2) \<Rightarrow> (Inr (), print (ErrorSyncingStandings e) w2)))"

subsection \<open>sync_matches_to_supabase\<close>




subsection \<open>run_daily_sync\<close>


section \<open>Notions used in the statements\<close>

subsection \<open>Well-formed documents\<close>

text \<open>
  \<open>field j k\<close> is the value under key \<open>k\<close> of the object \<open>j\<close>. A table entry is
  well formed when it has every key that the standings loop reads, a match when it has
  every key that the matches loop reads. \<open>table_entries\<close> is the table array of the
  first standings group, \<open>match_entries\<close> the matches array (the empty list when the
  document has no \<open>matches\<close> key, as \<open>data.get('matches', [])\<close> has it), and
  \<open>full_time m k\<close> the value of \<open>m['score']['fullTime'][k]\<close>.
\<close>

definition field :: "json \<Rightarrow> string \<Rightarrow> json option" where
  "field j k = (case j of JObj kvs \<Rightarrow> map_of kvs k | _ \<Rightarrow> None)"

definition has_fields :: "json \<Rightarrow> string list \<Rightarrow> bool" where
  "has_fields j ks = list_all (\<lambda>k. field j k \<noteq> None) ks"

definition valid_entry :: "json \<Rightarrow> bool" where
  "valid_entry team =
     (has_fields team [''position'', ''playedGames'', ''won'', ''draw'', ''lost'', ''points'',
                       ''goalsFor'', ''goalsAgainst'', ''goalDifference''] \<and>
      (case field team ''team'' of None \<Rightarrow> False | Some t \<Rightarrow> has_fields t [''name'', ''id'']))"

definition table_entries :: "json \<Rightarrow> json list option" where
  "table_entries data =
     (case field data ''standings'' of
        Some (JArr (g # gs)) \<Rightarrow>
          (case field g ''table'' of Some (JArr entries) \<Rightarrow> Some entries | _ \<Rightarrow> None)
      | _ \<Rightarrow> None)"

definition valid_match :: "json \<Rightarrow> bool" where
  "valid_match m =
     (has_fields m [''id'', ''utcDate'', ''status'', ''matchday''] \<and>
      (case field m ''homeTeam'' of None \<Rightarrow> False | Some t \<Rightarrow> has_fields t [''name'', ''id'']) \<and>
      (case field m ''awayTeam'' of None \<Rightarrow> False | Some t \<Rightarrow> has_fields t [''name'', ''id'']) \<and>
      (case field m ''score'' of
         None \<Rightarrow> False
       | Some s \<Rightarrow>
           (case field s ''fullTime'' of
              None \<Rightarrow> False
            | Some f \<Rightarrow> has_fields f [''home'', ''away''])))"

definition full_time :: "json \<Rightarrow> string \<Rightarrow> json option" where
  "full_time m k =
     (case field m ''score'' of
        None \<Rightarrow> None
      | Some s \<Rightarrow> (case field s ''fullTime'' of None \<Rightarrow> None | Some f \<Rightarrow> field f k))"

definition match_entries :: "json \<Rightarrow> json list option" where
  "match_entries data =
     (case data of
        JObj kvs \<Rightarrow>
          (case map_of kvs ''matches'' of
             None \<Rightarrow> Some []
           | Some (JArr ms) \<Rightarrow> Some ms
           | Some _ \<Rightarrow> None)
      | _ \<Rightarrow> None)"

subsection \<open>Responses and requests\<close>

text \<open>
  A success status is a 2xx status. \<open>fetch_failure\<close> tells whether the three library
  calls of a fetch raise, and what: the transport error of \<open>requests.get\<close>, the
  \<open>HTTPError\<close> of \<open>raise_for_status\<close>, or the decoding error of \<open>json()\<close>.
  \<open>recent_matches_request\<close> is the request that \<open>get_recent_matches\<close> builds in the
  state \<open>w\<close>, from its two readings of the clock.
\<close>

definition ok_status :: "response \<Rightarrow> bool" where
  "ok_status r = (200 \<le> status_code r \<and> status_code r < 300)"

fun fetch_failure :: "request_error + response \<Rightarrow> request_error option" where
  "fetch_failure (Inl e) = Some e"
| "fetch_failure (Inr r) =
     (if 400 \<le> status_code r \<and> status_code r < 600 then Some (HTTPError (status_code r))
      else if body r = None then Some JSONDecodeError
      else None)"

definition recent_matches_request :: "env \<Rightarrow> int \<Rightarrow> world \<Rightarrow> request" where
  "recent_matches_request env days_back w =
     matches_request env (date_of (clock_at env (n_now w) - timedelta_days days_back))
       (date_of (clock_at env (Suc (n_now w))))"

subsection \<open>Errors, events and states\<close>


fun is_db_event :: "event \<Rightarrow> bool" where
  "is_db_event (DbDeleteStandingsGte _) = True"
| "is_db_event (DbInsertStandings _) = True"
| "is_db_event (DbUpsertMatch _) = True"
| "is_db_event _ = False"

definition db_untouched :: "world \<Rightarrow> world \<Rightarrow> bool" where
  "db_untouched w w' =
     (standings_tbl w' = standings_tbl w \<and> matches_tbl w' = matches_tbl w \<and>
      n_db w' = n_db w \<and> filter is_db_event (trace w') = filter is_db_event (trace w))"


subsection \<open>Upserting a list of rows\<close>




section \<open>Sample inputs\<close>

text \<open>
  Concrete documents, environments and states, on which the theorems below are
  instantiated. The sample clocks start at 1000 microseconds, on day 0.
\<close>

definition entry_of :: "int \<Rightarrow> string \<Rightarrow> int \<Rightarrow> json" where
  "entry_of pos name tid =
     JObj [(''position'', JInt pos), (''team'', JObj [(''name'', JStr name), (''id'', JInt tid)]),
           (''playedGames'', JInt 3), (''won'', JInt 2), (''draw'', JInt 1), (''lost'', JInt 0),
           (''points'', JInt 7), (''goalsFor'', JInt 5), (''goalsAgainst'', JInt 2),
           (''goalDifference'', JInt 3)]"

definition three_teams :: "json list" where
  "three_teams = [entry_of 1 ''Arsenal'' 57, entry_of 2 ''Liverpool'' 64, entry_of 3 ''Everton'' 62]"

definition standings_doc :: "json list \<Rightarrow> json" where
  "standings_doc entries = JObj [(''standings'', JArr [JObj [(''table'', JArr entries)]])]"

definition match_json :: "int \<Rightarrow> json \<Rightarrow> json \<Rightarrow> json" where
  "match_json mid hs as =
     JObj [(''id'', JInt mid), (''utcDate'', JStr ''2024-05-01T19:00:00Z''),
           (''status'', JStr ''TIMED''), (''matchday'', JInt 36),
           (''homeTeam'', JObj [(''name'', JStr ''Arsenal''), (''id'', JInt 57)]),
           (''awayTeam'', JObj [(''name'', JStr ''Everton''), (''id'', JInt 62)]),
           (''score'', JObj [(''fullTime'', JObj [(''home'', hs), (''away'', as)])])]"

definition two_matches :: "json list" where
  "two_matches = [match_json 12345 JNull JNull, match_json 12346 (JInt 2) (JInt 1)]"

definition matches_doc :: "json list \<Rightarrow> json" where
  "matches_doc ms = JObj [(''matches'', JArr ms)]"

definition match_no_score :: json where
  "match_no_score =
     JObj [(''id'', JInt 12345), (''utcDate'', JStr ''2024-05-01T19:00:00Z''),
           (''status'', JStr ''TIMED''), (''matchday'', JInt 36),
           (''homeTeam'', JObj [(''name'', JStr ''Arsenal''), (''id'', JInt 57)]),
           (''awayTeam'', JObj [(''name'', JStr ''Everton''), (''id'', JInt 62)]),
           (''score'', JObj [(''fullTime'', JObj [])])]"


definition row_at :: "int \<Rightarrow> datetime \<Rightarrow> standing_row" where
  "row_at pos t =
     \<lparr>position = JInt pos, team_name = JStr ''Chelsea'', team_id = JInt 61,
      played_games = JInt 1, won = JInt 0, draw = JInt 1, lost = JInt 0, points = JInt 1,
      goals_for = JInt 0, goals_against = JInt 0, goal_difference = JInt 0,
      s_updated_at = t\<rparr>"


definition w_init :: world where
  "w_init = \<lparr>standings_tbl = [], matches_tbl = [], trace = [], n_now = 0, n_http = 0, n_db = 0\<rparr>"

definition w_dated :: world where
  "w_dated =
     \<lparr>standings_tbl = [row_at 9 (- 5), row_at 8 500, row_at 7 (2 * usec_per_day)],
      matches_tbl = [], trace = [], n_now = 0, n_http = 0, n_db = 0\<rparr>"


definition env_of :: "int \<Rightarrow> json option \<Rightarrow> int \<Rightarrow> json option \<Rightarrow> env" where
  "env_of s1 b1 s2 b2 =
     \<lparr>api_key = None, clock_at = (\<lambda>k. 1000 + int k),
      http_at = (\<lambda>k r. if k = 0 then Inr \<lparr>status_code = s1, body = b1\<rparr>
                        else Inr \<lparr>status_code = s2, body = b2\<rparr>),
      db_at = (\<lambda>k. None)\<rparr>"



definition env_empty :: env where
  "env_empty = env_of 200 (Some (JObj [])) 200 None"

definition env_503 :: env where
  "env_503 = env_of 503 None 503 None"






section \<open>Properties of the operations\<close>

subsection \<open>The mappers on well-formed documents\<close>

lemma subscript_field: "field j k = Some v \<Longrightarrow> subscript j k = Inr v"
  by (cases j) (simp_all add: field_def)

lemma standing_fields_valid:
  assumes "valid_entry team"
  shows "\<exists>mk. standing_fields team = Inr mk \<and> (\<forall>t. field team ''position'' = Some (position (mk t)) \<and> s_updated_at (mk t) = t)"
proof -
  from assms obtain tm where tm: "field team ''team'' = Some tm" and
    t2: "has_fields tm [''name'', ''id'']"
    by (auto simp: valid_entry_def split: option.splits)
  from assms have hf: "has_fields team [''position'', ''playedGames'', ''won'', ''draw'', ''lost'', ''points'',
                       ''goalsFor'', ''goalsAgainst'', ''goalDifference'']"
    by (simp add: valid_entry_def)
  from hf obtain a1 a2 a3 a4 a5 a6 a7 a8 a9 where
    a: "field team ''position'' = Some a1" "field team ''playedGames'' = Some a2"
       "field team ''won'' = Some a3" "field team ''draw'' = Some a4"
       "field team ''lost'' = Some a5" "field team ''points'' = Some a6"
       "field team ''goalsFor'' = Some a7" "field team ''goalsAgainst'' = Some a8"
       "field team ''goalDifference'' = Some a9"
    unfolding has_fields_def by auto
  from t2 obtain b1 b2 where b: "field tm ''name'' = Some b1" "field tm ''id'' = Some b2"
    unfolding has_fields_def by auto
  show ?thesis
    unfolding standing_fields_def
    by (simp add: sbind_def subscript_field[OF tm] subscript_field[OF a(1)] subscript_field[OF a(2)]
        subscript_field[OF a(3)] subscript_field[OF a(4)] subscript_field[OF a(5)]
        subscript_field[OF a(6)] subscript_field[OF a(7)] subscript_field[OF a(8)]
        subscript_field[OF a(9)] subscript_field[OF b(1)] subscript_field[OF b(2)] a(1))
qed

lemma map_teams_valid:
  "list_all valid_entry teams \<Longrightarrow>
   \<exists>rows. map_teams env teams acc w = (Inr (acc @ rows), w\<lparr>n_now := n_now w + length teams\<rparr>) \<and>
          length rows = length teams \<and>
          map (\<lambda>r. Some (position r)) rows = map (\<lambda>e. field e ''position'') teams"
proof (induction teams arbitrary: acc w)
  case Nil
  then show ?case by simp
next
  case (Cons team rest)
  from Cons.prems have v: "valid_entry team" and vr: "list_all valid_entry rest" by simp_all
  from standing_fields_valid[OF v] obtain mk where
    mk: "standing_fields team = Inr mk" and p: "\<And>t. field team ''position'' = Some (position (mk t))"
    by blast
  let ?t = "clock_at env (n_now w)"
  let ?w1 = "w\<lparr>n_now := Suc (n_now w)\<rparr>"
  from Cons.IH[OF vr, of "acc @ [mk ?t]" ?w1] obtain rows where
    r: "map_teams env rest (acc @ [mk ?t]) ?w1 = (Inr ((acc @ [mk ?t]) @ rows), ?w1\<lparr>n_now := n_now ?w1 + length rest\<rparr>)"
    and l: "length rows = length rest"
    and m: "map (\<lambda>r. Some (position r)) rows = map (\<lambda>e. field e ''position'') rest"
    by blast
  show ?case
    apply (rule exI[of _ "mk ?t # rows"])
    using r l m p[of ?t] by (simp add: mk now_def)
qed

lemma table_entries_iterate:
  assumes "table_entries data = Some entries"
  shows "contains ''standings'' data = Inr True"
    and "\<exists>n. sbind (subscript data ''standings'') py_len = Inr (Suc n)"
    and "sbind (sbind (sbind (subscript data ''standings'') index0)
               (\<lambda>g. subscript g ''table'')) iterate = Inr entries"
proof -
  from assms obtain kvs g gs where d: "data = JObj kvs"
    and s: "map_of kvs ''standings'' = Some (JArr (g # gs))"
    and t: "field g ''table'' = Some (JArr entries)"
    by (cases data) (auto simp: table_entries_def field_def split: option.splits json.splits list.splits)
  show "contains ''standings'' data = Inr True" using d s by simp
  show "\<exists>n. sbind (subscript data ''standings'') py_len = Inr (Suc n)"
    using d s by (simp add: sbind_def)
  show "sbind (sbind (sbind (subscript data ''standings'') index0)
               (\<lambda>g. subscript g ''table'')) iterate = Inr entries"
    using d s subscript_field[OF t] by (simp add: sbind_def)
qed

lemma standings_of_valid:
  assumes "table_entries data = Some entries" and "list_all valid_entry entries"
  shows "\<exists>rows. standings_of env data w = (Inr rows, w\<lparr>n_now := n_now w + length entries\<rparr>) \<and>
          length rows = length entries \<and>
          map (\<lambda>r. Some (position r)) rows = map (\<lambda>e. field e ''position'') entries"
proof -
  from table_entries_iterate(2)[OF assms(1)] obtain n where
    n: "sbind (subscript data ''standings'') py_len = Inr (Suc n)" by blast
  from map_teams_valid[OF assms(2), of env "[]" w] obtain rows where
    "map_teams env entries [] w = (Inr rows, w\<lparr>n_now := n_now w + length entries\<rparr>)"
    "length rows = length entries"
    "map (\<lambda>r. Some (position r)) rows = map (\<lambda>e. field e ''position'') entries"
    by auto
  then show ?thesis
    unfolding standings_of_def
    by (simp add: table_entries_iterate(1)[OF assms(1)] n table_entries_iterate(3)[OF assms(1)])
qed

lemma standings_try_ok:
  assumes "http_at env (n_http w) (standings_request env) = Inr resp"
    and "\<not> (400 \<le> status_code resp \<and> status_code resp < 600)"
    and "body resp = Some data"
  shows "standings_try env w =
           standings_of env data
             (w\<lparr>trace := trace w @ [HttpGet (standings_request env)], n_http := Suc (n_http w)\<rparr>)"
  using assms
  by (auto simp: standings_try_def bind_def requests_get_def lift_def raise_for_status_def
      response_json_def)

lemma match_fields_valid:
  assumes "valid_match m"
  shows "\<exists>mk. match_fields m = Inr mk \<and>
           (\<forall>t. field m ''id'' = Some (match_id (mk t)) \<and>
                full_time m ''home'' = Some (home_score (mk t)) \<and>
                full_time m ''away'' = Some (away_score (mk t)) \<and>
                m_updated_at (mk t) = t)"
proof -
  from assms obtain h a s f where
    h: "field m ''homeTeam'' = Some h" and h2: "has_fields h [''name'', ''id'']" and
    a: "field m ''awayTeam'' = Some a" and a2: "has_fields a [''name'', ''id'']" and
    s: "field m ''score'' = Some s" and f: "field s ''fullTime'' = Some f" and
    f2: "has_fields f [''home'', ''away'']"
    by (auto simp: valid_match_def split: option.splits)
  from assms have "has_fields m [''id'', ''utcDate'', ''status'', ''matchday'']"
    by (simp add: valid_match_def)
  then obtain c1 c2 c3 c4 where
    c: "field m ''id'' = Some c1" "field m ''utcDate'' = Some c2"
       "field m ''status'' = Some c3" "field m ''matchday'' = Some c4"
    unfolding has_fields_def by auto
  from h2 obtain h_name h_id where hh: "field h ''name'' = Some h_name" "field h ''id'' = Some h_id"
    unfolding has_fields_def by auto
  from a2 obtain a_name a_id where aa: "field a ''name'' = Some a_name" "field a ''id'' = Some a_id"
    unfolding has_fields_def by auto
  from f2 obtain f_home f_away where ff: "field f ''home'' = Some f_home" "field f ''away'' = Some f_away"
    unfolding has_fields_def by auto
  show ?thesis
    unfolding match_fields_def full_time_def
    by (simp add: sbind_def subscript_field[OF h] subscript_field[OF a] subscript_field[OF s]
        subscript_field[OF f] subscript_field[OF c(1)] subscript_field[OF c(2)]
        subscript_field[OF c(3)] subscript_field[OF c(4)] subscript_field[OF hh(1)]
        subscript_field[OF hh(2)] subscript_field[OF aa(1)] subscript_field[OF aa(2)]
        subscript_field[OF ff(1)] subscript_field[OF ff(2)] c(1) s f ff)
qed

lemma map_matches_valid:
  "list_all valid_match ms \<Longrightarrow>
   \<exists>rows. map_matches env ms acc w = (Inr (acc @ rows), w\<lparr>n_now := n_now w + length ms\<rparr>) \<and>
          length rows = length ms \<and>
          map (\<lambda>r. Some (match_id r)) rows = map (\<lambda>e. field e ''id'') ms \<and>
          map (\<lambda>r. Some (home_score r)) rows = map (\<lambda>e. full_time e ''home'') ms \<and>
          map (\<lambda>r. Some (away_score r)) rows = map (\<lambda>e. full_time e ''away'') ms"
proof (induction ms arbitrary: acc w)
  case Nil
  then show ?case by simp
next
  case (Cons m rest)
  from Cons.prems have v: "valid_match m" and vr: "list_all valid_match rest" by simp_all
  from match_fields_valid[OF v] obtain mk where
    mk: "match_fields m = Inr mk" and
    p: "\<And>t. field m ''id'' = Some (match_id (mk t)) \<and>
                full_time m ''home'' = Some (home_score (mk t)) \<and>
                full_time m ''away'' = Some (away_score (mk t))"
    by blast
  let ?t = "clock_at env (n_now w)"
  let ?w1 = "w\<lparr>n_now := Suc (n_now w)\<rparr>"
  from Cons.IH[OF vr, of "acc @ [mk ?t]" ?w1] obtain rows where
    r: "map_matches env rest (acc @ [mk ?t]) ?w1 = (Inr ((acc @ [mk ?t]) @ rows), ?w1\<lparr>n_now := n_now ?w1 + length rest\<rparr>)"
    and l: "length rows = length rest"
    and m: "map (\<lambda>r. Some (match_id r)) rows = map (\<lambda>e. field e ''id'') rest"
      "map (\<lambda>r. Some (home_score r)) rows = map (\<lambda>e. full_time e ''home'') rest"
      "map (\<lambda>r. Some (away_score r)) rows = map (\<lambda>e. full_time e ''away'') rest"
    by blast
  show ?case
    apply (rule exI[of _ "mk ?t # rows"])
    using r l m p[of ?t] by (simp add: mk now_def)
qed

lemma matches_of_valid:
  assumes "match_entries data = Some entries" and "list_all valid_match entries"
  shows "\<exists>rows. matches_of env data w = (Inr rows, w\<lparr>n_now := n_now w + length entries\<rparr>) \<and>
          length rows = length entries \<and>
          map (\<lambda>r. Some (match_id r)) rows = map (\<lambda>e. field e ''id'') entries \<and>
          map (\<lambda>r. Some (home_score r)) rows = map (\<lambda>e. full_time e ''home'') entries \<and>
          map (\<lambda>r. Some (away_score r)) rows = map (\<lambda>e. full_time e ''away'') entries"
proof -
  from assms(1) have it: "sbind (get_default data ''matches'' (JArr [])) iterate = Inr entries"
    by (cases data) (auto simp: match_entries_def sbind_def split: option.splits json.splits)
  from map_matches_valid[OF assms(2), of env "[]" w] show ?thesis
    unfolding matches_of_def by (simp add: it)
qed

lemma matches_try_ok:
  assumes "http_at env (n_http w) req = Inr resp"
    and "\<not> (400 \<le> status_code resp \<and> status_code resp < 600)"
    and "body resp = Some data"
  shows "matches_try env req w =
           matches_of env data (w\<lparr>trace := trace w @ [HttpGet req], n_http := Suc (n_http w)\<rparr>)"
  using assms
  by (auto simp: matches_try_def bind_def requests_get_def lift_def raise_for_status_def
      response_json_def)

lemma get_recent_matches_valid:
  assumes "http_at env (n_http w) (recent_matches_request env days_back w) = Inr resp"
    and "ok_status resp"
    and "body resp = Some data"
    and "match_entries data = Some entries"
    and "list_all valid_match entries"
  shows "\<exists>rows w'. get_recent_matches env days_back w = (Inr rows, w') \<and>
           length rows = length entries \<and>
           map (\<lambda>r. Some (match_id r)) rows = map (\<lambda>e. field e ''id'') entries \<and>
           map (\<lambda>r. Some (home_score r)) rows = map (\<lambda>e. full_time e ''home'') entries \<and>
           map (\<lambda>r. Some (away_score r)) rows = map (\<lambda>e. full_time e ''away'') entries"
proof -
  have ns: "\<not> (400 \<le> status_code resp \<and> status_code resp < 600)"
    using assms(2) by (simp add: ok_status_def)
  let ?req = "recent_matches_request env days_back w"
  let ?w2 = "w\<lparr>n_now := Suc (Suc (n_now w))\<rparr>"
  let ?w3 = "?w2\<lparr>trace := trace ?w2 @ [HttpGet ?req], n_http := Suc (n_http ?w2)\<rparr>"
  have h: "http_at env (n_http ?w2) ?req = Inr resp" using assms(1) by simp
  from matches_of_valid[OF assms(4,5), of env ?w3] obtain rows where
    r: "matches_of env data ?w3 = (Inr rows, ?w3\<lparr>n_now := n_now ?w3 + length entries\<rparr>)"
    and rest: "length rows = length entries"
    "map (\<lambda>r. Some (match_id r)) rows = map (\<lambda>e. field e ''id'') entries"
    "map (\<lambda>r. Some (home_score r)) rows = map (\<lambda>e. full_time e ''home'') entries"
    "map (\<lambda>r. Some (away_score r)) rows = map (\<lambda>e. full_time e ''away'') entries"
    by blast
  have "get_recent_matches env days_back w = (Inr rows, ?w3\<lparr>n_now := n_now ?w3 + length entries\<rparr>)"
    unfolding get_recent_matches_def now_def
    using matches_try_ok[OF h ns assms(3)] r
    by (simp add: recent_matches_request_def)
  with rest show ?thesis by blast
qed

subsection \<open>What a fetch leaves unchanged\<close>

text \<open>
  A fetch makes one HTTP request and reads the clock; it makes no database call, and a
  fetch that returns rows adds nothing to the trace but its request.
\<close>

lemma db_untouched_refl: "db_untouched w w"
  by (simp add: db_untouched_def)

lemma map_teams_frame:
  "map_teams env teams acc w = (r, w') \<Longrightarrow> db_untouched w w' \<and> n_http w' = n_http w"
proof (induction teams arbitrary: acc w)
  case Nil
  then show ?case by (auto simp: db_untouched_def)
next
  case (Cons team rest)
  show ?case
  proof (cases "standing_fields team")
    case (Inl e)
    with Cons.prems show ?thesis by (auto simp: db_untouched_def)
  next
    case (Inr mk)
    with Cons.prems have
      "map_teams env rest (acc @ [mk (clock_at env (n_now w))]) (w\<lparr>n_now := Suc (n_now w)\<rparr>) = (r, w')"
      by (simp add: now_def)
    from Cons.IH[OF this] show ?thesis by (simp add: db_untouched_def)
  qed
qed

lemma standings_of_frame:
  "standings_of env data w = (r, w') \<Longrightarrow> db_untouched w w' \<and> n_http w' = n_http w"
  unfolding standings_of_def
  by (auto split: sum.splits bool.splits if_splits dest: map_teams_frame simp: db_untouched_refl)

lemma standings_try_frame:
  "standings_try env w = (r, w') \<Longrightarrow> db_untouched w w' \<and> n_http w' = Suc (n_http w)"
  unfolding standings_try_def bind_def lift_def requests_get_def
  by (auto split: sum.splits prod.splits dest!: standings_of_frame simp: db_untouched_def)

lemma get_premier_league_standings_frame:
  "get_premier_league_standings env w = (r, w') \<Longrightarrow> db_untouched w w' \<and> n_http w' = Suc (n_http w)"
  unfolding get_premier_league_standings_def
  by (auto split: sum.splits prod.splits if_splits dest!: standings_try_frame
      simp: db_untouched_def print_def)









subsection \<open>Failed fetches and documents without standings\<close>

lemma standings_try_failed:
  assumes "fetch_failure (http_at env (n_http w) (standings_request env)) = Some err"
  shows "standings_try env w =
           (Inl (RequestException err),
            w\<lparr>trace := trace w @ [HttpGet (standings_request env)], n_http := Suc (n_http w)\<rparr>)"
proof (cases "http_at env (n_http w) (standings_request env)")
  case (Inl e)
  with assms show ?thesis
    by (simp add: standings_try_def bind_def requests_get_def)
next
  case (Inr r)
  with assms show ?thesis
    by (auto simp: standings_try_def bind_def requests_get_def lift_def raise_for_status_def
        response_json_def split: if_splits)
qed

lemma standings_fetch_failed:
  assumes "fetch_failure (http_at env (n_http w) (standings_request env)) = Some err"
  shows "get_premier_league_standings env w =
           (Inr [],
            w\<lparr>trace := trace w @ [HttpGet (standings_request env),
                                  ErrorFetchingStandings (RequestException err)],
              n_http := Suc (n_http w)\<rparr>)"
  by (simp add: get_premier_league_standings_def standings_try_failed[OF assms] print_def)

lemma matches_try_failed:
  assumes "fetch_failure (http_at env (n_http w) req) = Some err"
  shows "matches_try env req w =
           (Inl (RequestException err),
            w\<lparr>trace := trace w @ [HttpGet req], n_http := Suc (n_http w)\<rparr>)"
proof (cases "http_at env (n_http w) req")
  case (Inl e)
  with assms show ?thesis
    by (simp add: matches_try_def bind_def requests_get_def)
next
  case (Inr r)
  with assms show ?thesis
    by (auto simp: matches_try_def bind_def requests_get_def lift_def raise_for_status_def
        response_json_def split: if_splits)
qed

lemma matches_fetch_failed:
  assumes "fetch_failure (http_at env (n_http w) (recent_matches_request env days_back w)) = Some err"
  shows "get_recent_matches env days_back w =
           (Inr [],
            w\<lparr>trace := trace w @ [HttpGet (recent_matches_request env days_back w),
                                  ErrorFetchingMatches (RequestException err)],
              n_now := Suc (Suc (n_now w)), n_http := Suc (n_http w)\<rparr>)"
proof -
  let ?w2 = "w\<lparr>n_now := Suc (Suc (n_now w))\<rparr>"
  have "fetch_failure (http_at env (n_http ?w2) (recent_matches_request env days_back w)) = Some err"
    using assms by simp
  from matches_try_failed[OF this] show ?thesis
    by (simp add: get_recent_matches_def now_def recent_matches_request_def print_def)
qed

lemma standings_of_absent:
  assumes "contains ''standings'' data = Inr False \<or> field data ''standings'' = Some (JArr [])"
  shows "standings_of env data w = (Inr [], w)"
  using assms
proof
  assume "contains ''standings'' data = Inr False"
  then show ?thesis by (simp add: standings_of_def)
next
  assume "field data ''standings'' = Some (JArr [])"
  then obtain kvs where "data = JObj kvs" "map_of kvs ''standings'' = Some (JArr [])"
    by (cases data) (auto simp: field_def)
  then show ?thesis by (simp add: standings_of_def sbind_def)
qed

lemma standings_absent_empty:
  assumes "http_at env (n_http w) (standings_request env) = Inr resp"
    and "body resp = Some data"
    and "contains ''standings'' data = Inr False \<or> field data ''standings'' = Some (JArr [])"
  shows "fst (get_premier_league_standings env w) = Inr []"
proof (cases "400 \<le> status_code resp \<and> status_code resp < 600")
  case True
  with assms(1) have "fetch_failure (http_at env (n_http w) (standings_request env)) =
      Some (HTTPError (status_code resp))" by simp
  from standings_fetch_failed[OF this] show ?thesis by simp
next
  case False
  from standings_try_ok[OF assms(1) False assms(2)] standings_of_absent[OF assms(3)]
  show ?thesis by (simp add: get_premier_league_standings_def)
qed

lemma sync_standings_empty:
  assumes "fst (get_premier_league_standings env w) = Inr []"
  shows "fst (sync_standings_to_supabase env w) = Inr () \<and>
         last (trace (snd (sync_standings_to_supabase env w))) = NoStandingsData \<and>
         standings_tbl (snd (sync_standings_to_supabase env w)) = standings_tbl w \<and>
         matches_tbl (snd (sync_standings_to_supabase env w)) = matches_tbl w \<and>
         filter is_db_event (trace (snd (sync_standings_to_supabase env w))) =
           filter is_db_event (trace w)"
proof -
  obtain w1 where g: "get_premier_league_standings env w = (Inr [], w1)"
    using assms by (cases "get_premier_league_standings env w") auto
  from get_premier_league_standings_frame[OF g] show ?thesis
    by (simp add: sync_standings_to_supabase_def g print_def db_untouched_def)
qed



subsection \<open>The errors that leave the operations\<close>
























subsection \<open>The standings write\<close>







subsection \<open>The upsert loop\<close>
































subsection \<open>The sample runs\<close>

lemma valid_three: "list_all valid_entry three_teams"
  by (simp add: three_teams_def entry_of_def valid_entry_def has_fields_def field_def)

lemma valid_two_matches: "list_all valid_match two_matches"
  by (simp add: two_matches_def match_json_def valid_match_def has_fields_def field_def)


lemma fetch_empty:
  "get_premier_league_standings env_empty w_dated =
     (Inr [], w_dated\<lparr>trace := [HttpGet (standings_request env_empty)], n_http := 1\<rparr>)"
  by (simp add: get_premier_league_standings_def standings_try_def bind_def requests_get_def
      lift_def raise_for_status_def response_json_def standings_of_def sbind_def
      env_empty_def env_of_def w_dated_def)













section \<open>The claims\<close>

subsection \<open>C1: which errors of a daily sync are caught\<close>




subsection \<open>C2: a match without a posted score\<close>

text \<open>
  C2 as written fails when the full-time score fields are absent from the match:
  the lookup of \<open>home\<close> raises \<open>KeyError\<close> and no row is produced.
\<close>

theorem absent_score_counterexample:
  "full_time match_no_score ''home'' = None \<and>
   fst (get_recent_matches (env_of 200 (Some (matches_doc [match_no_score])) 200 None) 7 w_init)
     = Inl (KeyError ''home'')"
  by (simp add: get_recent_matches_def matches_try_def bind_def requests_get_def lift_def
      raise_for_status_def response_json_def matches_of_def sbind_def match_fields_def
      now_def env_of_def w_init_def matches_doc_def match_no_score_def full_time_def field_def)

text \<open>
  C2, as amended. For every response with a success status whose matches all carry the
  mapped fields, \<open>score.fullTime.home\<close> and \<open>score.fullTime.away\<close> included
  (with the value null while the score is not posted), \<open>get_recent_matches\<close> does not
  fail: it returns one row per match, whose \<open>home_score\<close> and \<open>away_score\<close> are the
  values of those two fields, so null where they are null.
\<close>

theorem null_score_mapped:
  assumes "http_at env (n_http w) (recent_matches_request env days_back w) = Inr resp"
    and "ok_status resp"
    and "body resp = Some data"
    and "match_entries data = Some entries"
    and "list_all valid_match entries"
  shows "\<exists>rows w'. get_recent_matches env days_back w = (Inr rows, w') \<and>
           length rows = length entries \<and>
           map (\<lambda>r. Some (home_score r)) rows = map (\<lambda>e. full_time e ''home'') entries \<and>
           map (\<lambda>r. Some (away_score r)) rows = map (\<lambda>e. full_time e ''away'') entries"
  using get_recent_matches_valid[OF assms] by blast

theorem null_score_mapped_witness:
  "\<exists>rows w'. get_recent_matches (env_of 200 (Some (matches_doc two_matches)) 200 None) 7 w_init
             = (Inr rows, w') \<and>
           length rows = 2 \<and>
           map (\<lambda>r. Some (home_score r)) rows = [Some JNull, Some (JInt 2)] \<and>
           map (\<lambda>r. Some (away_score r)) rows = [Some JNull, Some (JInt 1)]"
proof -
  let ?env = "env_of 200 (Some (matches_doc two_matches)) 200 None"
  let ?resp = "\<lparr>status_code = 200, body = Some (matches_doc two_matches)\<rparr>"
  have h1: "http_at ?env (n_http w_init) (recent_matches_request ?env 7 w_init) = Inr ?resp"
    by (simp add: env_of_def w_init_def)
  have h2: "ok_status ?resp" by (simp add: ok_status_def)
  have h3: "body ?resp = Some (matches_doc two_matches)" by simp
  have h4: "match_entries (matches_doc two_matches) = Some two_matches"
    by (simp add: matches_doc_def match_entries_def)
  have p: "map (\<lambda>e. full_time e ''home'') two_matches = [Some JNull, Some (JInt 2)]"
    "map (\<lambda>e. full_time e ''away'') two_matches = [Some JNull, Some (JInt 1)]"
    by (simp_all add: two_matches_def match_json_def full_time_def field_def)
  have l: "length two_matches = 2" by (simp add: two_matches_def)
  show ?thesis
    using null_score_mapped[OF h1 h2 h3 h4 valid_two_matches] unfolding p l .
qed

subsection \<open>C3: an empty fetch writes nothing\<close>

text \<open>
  C3. When the standings fetch returns the empty list, \<open>sync_standings_to_supabase\<close>
  prints "No standings data to sync" and returns: it makes no database call (the count
  of database calls and the database events of the trace are unchanged), so no delete
  runs and both tables are left as they were.
\<close>

theorem empty_fetch_no_write:
  assumes "get_premier_league_standings env w = (Inr [], w1)"
  shows "sync_standings_to_supabase env w = (Inr (), print NoStandingsData w1) \<and>
         standings_tbl (print NoStandingsData w1) = standings_tbl w \<and>
         matches_tbl (print NoStandingsData w1) = matches_tbl w \<and>
         n_db (print NoStandingsData w1) = n_db w \<and>
         filter is_db_event (trace (print NoStandingsData w1)) = filter is_db_event (trace w)"
  using assms get_premier_league_standings_frame[OF assms]
  by (simp add: sync_standings_to_supabase_def db_untouched_def print_def)

theorem empty_fetch_no_write_witness:
  "sync_standings_to_supabase env_empty w_dated =
     (Inr (),
      w_dated\<lparr>trace := [HttpGet (standings_request env_empty), NoStandingsData],
              n_http := 1\<rparr>) \<and>
   standings_tbl (snd (sync_standings_to_supabase env_empty w_dated)) =
     [row_at 9 (- 5), row_at 8 500, row_at 7 (2 * usec_per_day)]"
  using empty_fetch_no_write[OF fetch_empty]
  by (simp add: print_def w_dated_def)

subsection \<open>C4: syncing the matches twice with the same payload\<close>




subsection \<open>C5: one standing row per table entry, in input order\<close>

text \<open>
  C5. For a response with a success status whose document is well formed, with the
  table of its first standings group holding the entries \<open>entries\<close>,
  \<open>get_premier_league_standings\<close> returns exactly \<open>length entries\<close> rows, and the
  position of the i-th row is the position of the i-th entry.
\<close>

theorem standings_mapper_rows:
  assumes "http_at env (n_http w) (standings_request env) = Inr resp"
    and "ok_status resp"
    and "body resp = Some data"
    and "table_entries data = Some entries"
    and "list_all valid_entry entries"
  shows "\<exists>rows w'. get_premier_league_standings env w = (Inr rows, w') \<and>
           length rows = length entries \<and>
           map (\<lambda>r. Some (position r)) rows = map (\<lambda>e. field e ''position'') entries"
proof -
  have ns: "\<not> (400 \<le> status_code resp \<and> status_code resp < 600)"
    using assms(2) by (simp add: ok_status_def)
  let ?w1 = "w\<lparr>trace := trace w @ [HttpGet (standings_request env)], n_http := Suc (n_http w)\<rparr>"
  from standings_of_valid[OF assms(4,5), of env ?w1] obtain rows where
    "standings_of env data ?w1 = (Inr rows, ?w1\<lparr>n_now := n_now ?w1 + length entries\<rparr>)"
    "length rows = length entries"
    "map (\<lambda>r. Some (position r)) rows = map (\<lambda>e. field e ''position'') entries"
    by blast
  then show ?thesis
    by (simp add: get_premier_league_standings_def standings_try_ok[OF assms(1) ns assms(3)])
qed

theorem standings_mapper_rows_witness:
  "\<exists>rows w'. get_premier_league_standings (env_of 200 (Some (standings_doc three_teams)) 200 None) w_init = (Inr rows, w') \<and>
           length rows = 3 \<and>
           map (\<lambda>r. Some (position r)) rows = [Some (JInt 1), Some (JInt 2), Some (JInt 3)]"
proof -
  let ?env = "env_of 200 (Some (standings_doc three_teams)) 200 None"
  let ?resp = "\<lparr>status_code = 200, body = Some (standings_doc three_teams)\<rparr>"
  have h1: "http_at ?env (n_http w_init) (standings_request ?env) = Inr ?resp"
    by (simp add: env_of_def w_init_def)
  have h2: "ok_status ?resp" by (simp add: ok_status_def)
  have h3: "body ?resp = Some (standings_doc three_teams)" by simp
  have h4: "table_entries (standings_doc three_teams) = Some three_teams"
    by (simp add: standings_doc_def table_entries_def field_def)
  have p: "map (\<lambda>e. field e ''position'') three_teams = [Some (JInt 1), Some (JInt 2), Some (JInt 3)]"
    by (simp add: three_teams_def entry_of_def field_def)
  have l: "length three_teams = 3" by (simp add: three_teams_def)
  show ?thesis
    using standings_mapper_rows[OF h1 h2 h3 h4 valid_three] unfolding p l .
qed

subsection \<open>C6: one match row per match, with the id unchanged\<close>

text \<open>
  C6. For a response with a success status whose document is well formed, with the
  matches \<open>entries\<close>, \<open>get_recent_matches\<close> returns exactly one row per match, and
  the \<open>match_id\<close> of the i-th row is the \<open>id\<close> of the i-th match.
\<close>

theorem matches_mapper_rows:
  assumes "http_at env (n_http w) (recent_matches_request env days_back w) = Inr resp"
    and "ok_status resp"
    and "body resp = Some data"
    and "match_entries data = Some entries"
    and "list_all valid_match entries"
  shows "\<exists>rows w'. get_recent_matches env days_back w = (Inr rows, w') \<and>
           length rows = length entries \<and>
           map (\<lambda>r. Some (match_id r)) rows = map (\<lambda>e. field e ''id'') entries"
  using get_recent_matches_valid[OF assms] by blast

theorem matches_mapper_rows_witness:
  "\<exists>rows w'. get_recent_matches (env_of 200 (Some (matches_doc two_matches)) 200 None) 7 w_init
             = (Inr rows, w') \<and>
           length rows = 2 \<and>
           map (\<lambda>r. Some (match_id r)) rows = [Some (JInt 12345), Some (JInt 12346)]"
proof -
  let ?env = "env_of 200 (Some (matches_doc two_matches)) 200 None"
  let ?resp = "\<lparr>status_code = 200, body = Some (matches_doc two_matches)\<rparr>"
  have h1: "http_at ?env (n_http w_init) (recent_matches_request ?env 7 w_init) = Inr ?resp"
    by (simp add: env_of_def w_init_def)
  have h2: "ok_status ?resp" by (simp add: ok_status_def)
  have h3: "body ?resp = Some (matches_doc two_matches)" by simp
  have h4: "match_entries (matches_doc two_matches) = Some two_matches"
    by (simp add: matches_doc_def match_entries_def)
  have p: "map (\<lambda>e. field e ''id'') two_matches = [Some (JInt 12345), Some (JInt 12346)]"
    by (simp add: two_matches_def match_json_def field_def)
  have l: "length two_matches = 2" by (simp add: two_matches_def)
  show ?thesis
    using matches_mapper_rows[OF h1 h2 h3 h4 valid_two_matches] unfolding p l .
qed

subsection \<open>C7: the standings sync deletes, then inserts\<close>




subsection \<open>C8: a failed fetch is logged and yields the empty list\<close>

text \<open>
  C8 as written fails for a status that is neither 2xx nor 4xx/5xx:
  \<open>raise_for_status\<close> does not raise for 300, so a decodable body is mapped and
  returned, and nothing is logged.
\<close>

theorem status_300_counterexample:
  "\<not> ok_status \<lparr>status_code = 300, body = Some (standings_doc [entry_of 1 ''Arsenal'' 57])\<rparr> \<and>
   get_premier_league_standings
       (env_of 300 (Some (standings_doc [entry_of 1 ''Arsenal'' 57])) 200 None) w_init =
     (Inr [\<lparr>position = JInt 1, team_name = JStr ''Arsenal'', team_id = JInt 57,
            played_games = JInt 3, won = JInt 2, draw = JInt 1, lost = JInt 0,
            points = JInt 7, goals_for = JInt 5, goals_against = JInt 2,
            goal_difference = JInt 3, s_updated_at = 1000\<rparr>],
      w_init\<lparr>trace := [HttpGet (standings_request
                 (env_of 300 (Some (standings_doc [entry_of 1 ''Arsenal'' 57])) 200 None))],
             n_now := 1, n_http := 1\<rparr>)"
  by (simp add: get_premier_league_standings_def standings_try_def bind_def requests_get_def
      lift_def raise_for_status_def response_json_def standings_of_def sbind_def
      standing_fields_def now_def env_of_def w_init_def standings_doc_def
      entry_of_def standings_request_def ok_status_def)

text \<open>
  C8, as amended. For every fetch (standings, or matches in a date range) that fails by
  a transport error, a 4xx or 5xx status, or a body that is not JSON, the function logs
  the error and returns the empty list; it issues exactly one HTTP request (no retry)
  and nothing else happens between the request and the log line (no backoff).
\<close>

theorem fetch_failure_returns_empty:
  "(fetch_failure (http_at env (n_http w) (standings_request env)) = Some e1 \<longrightarrow>
      get_premier_league_standings env w =
        (Inr [],
         w\<lparr>trace := trace w @ [HttpGet (standings_request env),
                               ErrorFetchingStandings (RequestException e1)],
           n_http := Suc (n_http w)\<rparr>)) \<and>
   (fetch_failure (http_at env (n_http w) (recent_matches_request env days_back w)) = Some e2 \<longrightarrow>
      get_recent_matches env days_back w =
        (Inr [],
         w\<lparr>trace := trace w @ [HttpGet (recent_matches_request env days_back w),
                               ErrorFetchingMatches (RequestException e2)],
           n_now := Suc (Suc (n_now w)), n_http := Suc (n_http w)\<rparr>))"
  using standings_fetch_failed matches_fetch_failed by blast

theorem fetch_failure_returns_empty_witness:
  "get_premier_league_standings env_503 w_init =
     (Inr [],
      w_init\<lparr>trace := [HttpGet (standings_request env_503),
                        ErrorFetchingStandings (RequestException (HTTPError 503))],
             n_http := 1\<rparr>) \<and>
   get_recent_matches env_503 7 w_init =
     (Inr [],
      w_init\<lparr>trace := [HttpGet (recent_matches_request env_503 7 w_init),
                        ErrorFetchingMatches (RequestException (HTTPError 503))],
             n_now := 2, n_http := 1\<rparr>)"
proof -
  have a: "fetch_failure (http_at env_503 (n_http w_init) (standings_request env_503))
             = Some (HTTPError 503)"
    by (simp add: env_503_def env_of_def w_init_def)
  have b: "fetch_failure (http_at env_503 (n_http w_init) (recent_matches_request env_503 7 w_init))
             = Some (HTTPError 503)"
    by (simp add: env_503_def env_of_def w_init_def)
  have t0: "trace w_init = []" "n_http w_init = 0" "n_now w_init = 0"
    by (simp_all add: w_init_def)
  show ?thesis
    using fetch_failure_returns_empty[of env_503 w_init "HTTPError 503" 7 "HTTPError 503"] a b t0
    by simp
qed

subsection \<open>C10: a document without standings looks like a failed fetch\<close>

text \<open>
  C10 as written fails for a body that is JSON but neither an object, an array nor a
  string: for \<open>null\<close> (likewise a number or a boolean) the test
  \<open>'standings' in data\<close> raises \<open>TypeError\<close>, which the \<open>except\<close> clause does not
  catch, so the fetch and the standings sync raise.
\<close>

theorem null_body_counterexample:
  "field JNull ''standings'' = None \<and>
   fst (get_premier_league_standings (env_of 200 (Some JNull) 200 None) w_init) = Inl TypeError \<and>
   fst (sync_standings_to_supabase (env_of 200 (Some JNull) 200 None) w_init) = Inl TypeError"
  by (simp add: sync_standings_to_supabase_def get_premier_league_standings_def
      standings_try_def bind_def requests_get_def lift_def raise_for_status_def
      response_json_def standings_of_def env_of_def w_init_def field_def)

text \<open>
  C10, as amended. When the decoded body is a document on which the test
  \<open>'standings' in data\<close> is false (an object without that key, or an array or a string
  that does not contain it), or an object whose \<open>standings\<close> is the empty array, the
  standings fetch returns the empty list without raising; a failed fetch returns the
  empty list too, and in both cases \<open>sync_standings_to_supabase\<close> returns normally
  after printing "No standings data to sync", with the standings table and the
  database events of the trace unchanged.
\<close>

theorem absent_standings_like_failure:
  assumes "http_at env (n_http w) (standings_request env) = Inr resp"
    and "body resp = Some data"
    and "contains ''standings'' data = Inr False \<or> field data ''standings'' = Some (JArr [])"
    and "fetch_failure (http_at env' (n_http w) (standings_request env')) = Some err"
  shows "fst (get_premier_league_standings env w) = Inr [] \<and>
         fst (get_premier_league_standings env' w) = Inr [] \<and>
         fst (sync_standings_to_supabase env w) = Inr () \<and>
         fst (sync_standings_to_supabase env' w) = Inr () \<and>
         last (trace (snd (sync_standings_to_supabase env w))) = NoStandingsData \<and>
         last (trace (snd (sync_standings_to_supabase env' w))) = NoStandingsData \<and>
         standings_tbl (snd (sync_standings_to_supabase env w)) = standings_tbl w \<and>
         standings_tbl (snd (sync_standings_to_supabase env' w)) = standings_tbl w \<and>
         filter is_db_event (trace (snd (sync_standings_to_supabase env w))) =
           filter is_db_event (trace w) \<and>
         filter is_db_event (trace (snd (sync_standings_to_supabase env' w))) =
           filter is_db_event (trace w)"
proof -
  have a: "fst (get_premier_league_standings env w) = Inr []"
    by (rule standings_absent_empty[OF assms(1,2,3)])
  have b: "fst (get_premier_league_standings env' w) = Inr []"
    using standings_fetch_failed[OF assms(4)] by simp
  from a b sync_standings_empty[OF a] sync_standings_empty[OF b] show ?thesis by simp
qed

theorem absent_standings_like_failure_witness:
  "fst (get_premier_league_standings env_empty w_dated) = Inr [] \<and>
   fst (get_premier_league_standings
          (env_of 200 (Some (JObj [(''standings'', JArr [])])) 200 None) w_dated) = Inr [] \<and>
   fst (get_premier_league_standings env_503 w_dated) = Inr [] \<and>
   fst (sync_standings_to_supabase env_empty w_dated) = Inr () \<and>
   fst (sync_standings_to_supabase
          (env_of 200 (Some (JObj [(''standings'', JArr [])])) 200 None) w_dated) = Inr () \<and>
   fst (sync_standings_to_supabase env_503 w_dated) = Inr () \<and>
   last (trace (snd (sync_standings_to_supabase env_empty w_dated))) = NoStandingsData \<and>
   last (trace (snd (sync_standings_to_supabase env_503 w_dated))) = NoStandingsData \<and>
   standings_tbl (snd (sync_standings_to_supabase env_empty w_dated)) = standings_tbl w_dated \<and>
   standings_tbl (snd (sync_standings_to_supabase env_503 w_dated)) = standings_tbl w_dated"
proof -
  let ?e2 = "env_of 200 (Some (JObj [(''standings'', JArr [])])) 200 None"
  have a: "http_at env_empty (n_http w_dated) (standings_request env_empty) =
      Inr \<lparr>status_code = 200, body = Some (JObj [])\<rparr>"
    by (simp add: env_empty_def env_of_def w_dated_def)
  have b: "body \<lparr>status_code = 200, body = Some (JObj [])\<rparr> = Some (JObj [])" by simp
  have c: "contains ''standings'' (JObj []) = Inr False \<or>
           field (JObj []) ''standings'' = Some (JArr [])" by simp
  have a2: "http_at ?e2 (n_http w_dated) (standings_request ?e2) =
      Inr \<lparr>status_code = 200, body = Some (JObj [(''standings'', JArr [])])\<rparr>"
    by (simp add: env_of_def w_dated_def)
  have b2: "body \<lparr>status_code = 200, body = Some (JObj [(''standings'', JArr [])])\<rparr> =
      Some (JObj [(''standings'', JArr [])])" by simp
  have c2: "contains ''standings'' (JObj [(''standings'', JArr [])]) = Inr False \<or>
           field (JObj [(''standings'', JArr [])]) ''standings'' = Some (JArr [])"
    by (simp add: field_def)
  have d: "fetch_failure (http_at env_503 (n_http w_dated) (standings_request env_503))
      = Some (HTTPError 503)"
    by (simp add: env_503_def env_of_def w_dated_def)
  from absent_standings_like_failure[OF a b c d] absent_standings_like_failure[OF a2 b2 c2 d]
  show ?thesis by simp
qed

end
